theory Spec2Isabelle
  imports Complex_Main "HOL-Library.Char_ord" "HOL-Library.List_Lexorder"
    "HOL-Library.Product_Lexorder" "HOL-Library.Multiset"
begin

section \<open>Values\<close>

text \<open>
  The metrics aggregation \<^verbatim>\<open>process_data\<close> of \<^verbatim>\<open>src/app.py\<close> (lines 59 to 141) works on
  the decoded JSON answer of the ads API: a list of dictionaries whose values are strings,
  numbers, lists, dictionaries or null.

  Floating-point numbers are modelled by \<open>pyfloat\<close>: a finite value is an exact rational,
  next to the two infinities and NaN. The rounding and the overflow of IEEE doubles and
  the range of 64-bit integers are not part of the model; integers are unbounded.
\<close>

datatype pyfloat = Fin rat | PInf | NInf | NaN

datatype pyval =
    VNone
  | VBool bool
  | VInt int
  | VFloat pyfloat
  | VStr string
  | VList "pyval list"
  | VDict "(string \<times> pyval) list"

type_synonym pydict = "(string \<times> pyval) list"

datatype exc = KeyError | TypeError | ValueError

datatype log_record = Warning string

subsection \<open>Float arithmetic\<close>

definition isnan :: "pyfloat \<Rightarrow> bool" where
  "isnan x = (x = NaN)"

definition isfinite :: "pyfloat \<Rightarrow> bool" where
  "isfinite x = (case x of Fin r \<Rightarrow> True | _ \<Rightarrow> False)"

fun fl_add :: "pyfloat \<Rightarrow> pyfloat \<Rightarrow> pyfloat" where
  "fl_add NaN y = NaN"
| "fl_add x NaN = NaN"
| "fl_add (Fin a) (Fin b) = Fin (a + b)"
| "fl_add (Fin a) PInf = PInf"
| "fl_add (Fin a) NInf = NInf"
| "fl_add PInf (Fin b) = PInf"
| "fl_add NInf (Fin b) = NInf"
| "fl_add PInf PInf = PInf"
| "fl_add NInf NInf = NInf"
| "fl_add PInf NInf = NaN"
| "fl_add NInf PInf = NaN"

text \<open>
  Division as numpy does it on float64 arrays: a zero divisor gives an infinity or NaN,
  never an exception. (The sign of a zero is not modelled; a quotient by zero takes the
  sign of the dividend.)
\<close>

fun fl_div :: "pyfloat \<Rightarrow> pyfloat \<Rightarrow> pyfloat" where
  "fl_div NaN y = NaN"
| "fl_div x NaN = NaN"
| "fl_div (Fin a) (Fin b) =
     (if b = 0 then (if a = 0 then NaN else if 0 < a then PInf else NInf)
      else Fin (a / b))"
| "fl_div (Fin a) PInf = Fin 0"
| "fl_div (Fin a) NInf = Fin 0"
| "fl_div PInf (Fin b) = (if b < 0 then NInf else PInf)"
| "fl_div NInf (Fin b) = (if b < 0 then PInf else NInf)"
| "fl_div PInf PInf = NaN"
| "fl_div PInf NInf = NaN"
| "fl_div NInf PInf = NaN"
| "fl_div NInf NInf = NaN"

fun fl_mul :: "pyfloat \<Rightarrow> pyfloat \<Rightarrow> pyfloat" where
  "fl_mul NaN y = NaN"
| "fl_mul x NaN = NaN"
| "fl_mul (Fin a) (Fin b) = Fin (a * b)"
| "fl_mul (Fin a) PInf = (if a = 0 then NaN else if 0 < a then PInf else NInf)"
| "fl_mul (Fin a) NInf = (if a = 0 then NaN else if 0 < a then NInf else PInf)"
| "fl_mul PInf (Fin b) = (if b = 0 then NaN else if 0 < b then PInf else NInf)"
| "fl_mul NInf (Fin b) = (if b = 0 then NaN else if 0 < b then NInf else PInf)"
| "fl_mul PInf PInf = PInf"
| "fl_mul NInf NInf = PInf"
| "fl_mul PInf NInf = NInf"
| "fl_mul NInf PInf = NInf"

text \<open>\<open>x > y\<close> on floats: false as soon as one side is NaN.\<close>

fun fl_gt :: "pyfloat \<Rightarrow> pyfloat \<Rightarrow> bool" where
  "fl_gt NaN y = False"
| "fl_gt x NaN = False"
| "fl_gt (Fin a) (Fin b) = (b < a)"
| "fl_gt PInf PInf = False"
| "fl_gt PInf y = True"
| "fl_gt x NInf = (x \<noteq> NInf)"
| "fl_gt x PInf = False"
| "fl_gt NInf y = False"

definition fl_ge :: "pyfloat \<Rightarrow> pyfloat \<Rightarrow> bool" where
  "fl_ge x y = (x \<noteq> NaN \<and> y \<noteq> NaN \<and> (x = y \<or> fl_gt x y))"

instantiation pyfloat :: comm_monoid_add
begin

definition zero_pyfloat :: pyfloat where
  "zero_pyfloat = Fin 0"

definition plus_pyfloat :: "pyfloat \<Rightarrow> pyfloat \<Rightarrow> pyfloat" where
  "plus_pyfloat = fl_add"

instance
proof
  fix a b c :: pyfloat
  show "a + b + c = a + (b + c)"
    unfolding plus_pyfloat_def by (cases a; cases b; cases c) simp_all
  show "a + b = b + a"
    unfolding plus_pyfloat_def by (cases a; cases b) simp_all
  show "0 + a = a"
    unfolding plus_pyfloat_def zero_pyfloat_def by (cases a) simp_all
qed

end

text \<open>
  \<^verbatim>\<open>Series.sum()\<close> and the group sums of \<^verbatim>\<open>groupby(...).agg('sum')\<close> skip NaN entries
  (\<^verbatim>\<open>skipna=True\<close>); the sum of no entry is 0.
\<close>

definition series_sum :: "pyfloat list \<Rightarrow> pyfloat" where
  "series_sum xs = sum_list (filter (\<lambda>x. \<not> isnan x) xs)"

text \<open>Truncation toward zero, as a cast from float to int does.\<close>

definition trunc :: "rat \<Rightarrow> int" where
  "trunc r = (if 0 \<le> r then \<lfloor>r\<rfloor> else \<lceil>r\<rceil>)"

subsection \<open>Reading a number from text\<close>

text \<open>
  Library behaviour, not code of the repository: Python's \<^verbatim>\<open>float(s)\<close> and the string case of
  \<^verbatim>\<open>pandas.to_numeric\<close>. Both are modelled by one reader of decimal literals: blanks around
  an optional sign, digits with an optional fraction and an optional decimal exponent, or
  one of the words \<^verbatim>\<open>inf\<close>, \<^verbatim>\<open>infinity\<close>, \<^verbatim>\<open>nan\<close> in any letter case. Any other text is not
  a number (\<open>None\<close>); the underscores that \<^verbatim>\<open>float\<close> allows between digits are not
  modelled.
\<close>

definition digit_val :: "char \<Rightarrow> nat option" where
  "digit_val c =
     (let n = (of_char c :: nat) in if 48 \<le> n \<and> n \<le> 57 then Some (n - 48) else None)"

definition is_digit :: "char \<Rightarrow> bool" where
  "is_digit c = (digit_val c \<noteq> None)"

definition digits_val :: "string \<Rightarrow> nat" where
  "digits_val ds = foldl (\<lambda>a c. 10 * a + (case digit_val c of Some d \<Rightarrow> d | None \<Rightarrow> 0)) 0 ds"

definition is_blank :: "char \<Rightarrow> bool" where
  "is_blank c = (c = CHR '' '' \<or> c = CHR 0x09 \<or> c = CHR 0x0A \<or> c = CHR 0x0D)"

definition strip :: "string \<Rightarrow> string" where
  "strip s = rev (dropWhile is_blank (rev (dropWhile is_blank s)))"

definition lower_char :: "char \<Rightarrow> char" where
  "lower_char c =
     (if c = CHR ''I'' then CHR ''i'' else if c = CHR ''N'' then CHR ''n''
      else if c = CHR ''F'' then CHR ''f'' else if c = CHR ''T'' then CHR ''t''
      else if c = CHR ''Y'' then CHR ''y'' else if c = CHR ''A'' then CHR ''a''
      else c)"

text \<open>The exponent part: empty, or \<^verbatim>\<open>e\<close> with an optional sign and at least one digit.\<close>

definition parse_exponent :: "string \<Rightarrow> int option" where
  "parse_exponent s =
     (case s of
        [] \<Rightarrow> Some 0
      | c # t \<Rightarrow>
          if c = CHR ''e'' \<or> c = CHR ''E'' then
            (let (neg, ds) =
               (case t of
                  [] \<Rightarrow> (False, [])
                | d # u \<Rightarrow> if d = CHR ''-'' then (True, u)
                           else if d = CHR ''+'' then (False, u) else (False, t))
             in if ds \<noteq> [] \<and> list_all is_digit ds
                then Some (if neg then - int (digits_val ds) else int (digits_val ds))
                else None)
          else None)"

definition pow10 :: "int \<Rightarrow> rat" where
  "pow10 e = (if 0 \<le> e then 10 ^ nat e else 1 / 10 ^ nat (- e))"

definition parse_unsigned :: "string \<Rightarrow> rat option" where
  "parse_unsigned s =
     (let ip = takeWhile is_digit s;
          r1 = dropWhile is_digit s;
          (fp, r2) =
            (case r1 of
               [] \<Rightarrow> ([], [])
             | c # t \<Rightarrow> if c = CHR ''.'' then (takeWhile is_digit t, dropWhile is_digit t)
                        else ([], r1))
      in if ip = [] \<and> fp = [] then None
         else (case parse_exponent r2 of
                 None \<Rightarrow> None
               | Some e \<Rightarrow>
                   Some ((of_nat (digits_val ip)
                          + of_nat (digits_val fp) / 10 ^ length fp) * pow10 e)))"

definition parse_float :: "string \<Rightarrow> pyfloat option" where
  "parse_float s0 =
     (let s = strip s0;
          (neg, body) =
            (case s of
               [] \<Rightarrow> (False, [])
             | c # t \<Rightarrow> if c = CHR ''-'' then (True, t)
                        else if c = CHR ''+'' then (False, t) else (False, s));
          word = map lower_char body
      in if word = ''inf'' \<or> word = ''infinity'' then Some (if neg then NInf else PInf)
         else if word = ''nan'' then Some NaN
         else (case parse_unsigned body of
                 None \<Rightarrow> None
               | Some r \<Rightarrow> Some (Fin (if neg then - r else r))))"

section \<open>The data frame\<close>

definition ebind :: "exc + 'a \<Rightarrow> ('a \<Rightarrow> exc + 'b) \<Rightarrow> exc + 'b" where
  "ebind m f = (case m of Inl e \<Rightarrow> Inl e | Inr v \<Rightarrow> f v)"

text \<open>
  \<^verbatim>\<open>pd.DataFrame(raw_data)\<close>: the columns are the keys that occur in some record; a record
  without the key has NaN in that column. \<^verbatim>\<open>df[k]\<close> raises KeyError for a key no record has.
\<close>

definition df_cell :: "pydict \<Rightarrow> string \<Rightarrow> pyval" where
  "df_cell r k = (case map_of r k of None \<Rightarrow> VFloat NaN | Some v \<Rightarrow> v)"

definition has_column :: "string \<Rightarrow> pydict list \<Rightarrow> bool" where
  "has_column k raw = list_ex (\<lambda>r. map_of r k \<noteq> None) raw"

definition df_column :: "string \<Rightarrow> pydict list \<Rightarrow> exc + pyval list" where
  "df_column k raw =
     (if has_column k raw then Inr (map (\<lambda>r. df_cell r k) raw) else Inl KeyError)"

text \<open>
  \<^verbatim>\<open>pd.to_numeric(..., errors='coerce')\<close> on one cell: numbers stay, a string is read as a
  number, everything that is not a number becomes NaN.
\<close>

fun to_numeric_coerce :: "pyval \<Rightarrow> pyfloat" where
  "to_numeric_coerce (VStr s) = (case parse_float s of None \<Rightarrow> NaN | Some x \<Rightarrow> x)"
| "to_numeric_coerce (VInt n) = Fin (of_int n)"
| "to_numeric_coerce (VFloat x) = x"
| "to_numeric_coerce (VBool b) = Fin (if b then 1 else 0)"
| "to_numeric_coerce VNone = NaN"
| "to_numeric_coerce (VList xs) = NaN"
| "to_numeric_coerce (VDict d) = NaN"

definition fillna0 :: "pyfloat \<Rightarrow> pyfloat" where
  "fillna0 x = (if isnan x then Fin 0 else x)"

definition replace_inf :: "pyfloat \<Rightarrow> pyfloat" where
  "replace_inf x = (if x = PInf \<or> x = NInf then Fin 0 else x)"

text \<open>\<^verbatim>\<open>.astype(int)\<close> truncates, and raises on a value that is not finite.\<close>

fun astype_int :: "pyfloat \<Rightarrow> exc + int" where
  "astype_int (Fin r) = Inr (trunc r)"
| "astype_int x = Inl ValueError"

text \<open>A fallible function applied down a column: the first exception ends the call.\<close>

fun series_apply :: "('a \<Rightarrow> exc + 'b) \<Rightarrow> 'a list \<Rightarrow> exc + 'b list" where
  "series_apply f [] = Inr []"
| "series_apply f (x # xs) =
     (case f x of
        Inl e \<Rightarrow> Inl e
      | Inr v \<Rightarrow> (case series_apply f xs of Inl e \<Rightarrow> Inl e | Inr vs \<Rightarrow> Inr (v # vs)))"

subsection \<open>Purchase extraction\<close>

text \<open>\<^verbatim>\<open>item[k]\<close>: KeyError on a dictionary without the key, TypeError on anything else.\<close>

fun subscript :: "pyval \<Rightarrow> string \<Rightarrow> exc + pyval" where
  "subscript (VDict d) k = (case map_of d k of None \<Rightarrow> Inl KeyError | Some v \<Rightarrow> Inr v)"
| "subscript v k = Inl TypeError"

text \<open>The builtin \<^verbatim>\<open>float(v)\<close>.\<close>

fun py_float :: "pyval \<Rightarrow> exc + pyfloat" where
  "py_float (VStr s) = (case parse_float s of None \<Rightarrow> Inl ValueError | Some x \<Rightarrow> Inr x)"
| "py_float (VInt n) = Inr (Fin (of_int n))"
| "py_float (VFloat x) = Inr x"
| "py_float (VBool b) = Inr (Fin (if b then 1 else 0))"
| "py_float v = Inl TypeError"

text \<open>
  \<^verbatim>\<open>next((float(item['value']) for item in x if item['action_type'] == 'purchase'), 0)\<close>:
  the items are visited in order, the test comes before the conversion, and the items
  after the first purchase are never looked at.
\<close>

fun first_purchase :: "pyval list \<Rightarrow> exc + pyfloat" where
  "first_purchase [] = Inr (Fin 0)"
| "first_purchase (item # rest) =
     (case subscript item ''action_type'' of
        Inl e \<Rightarrow> Inl e
      | Inr t \<Rightarrow>
          if t = VStr ''purchase'' then ebind (subscript item ''value'') py_float
          else first_purchase rest)"

fun purchase_value :: "pyval \<Rightarrow> exc + pyfloat" where
  "purchase_value (VList items) = first_purchase items"
| "purchase_value v = Inr (Fin 0)"

subsection \<open>Coerced rows\<close>

record df_row =
  df_campaign_name :: pyval
  df_spend :: pyfloat
  df_impressions :: int
  df_clicks :: int
  df_conversions :: int
  df_sales :: pyfloat

definition make_rows ::
  "pyval list \<Rightarrow> pyfloat list \<Rightarrow> int list \<Rightarrow> int list \<Rightarrow> int list \<Rightarrow> pyfloat list
     \<Rightarrow> df_row list" where
  "make_rows ns sp im cl cv sa =
     map (\<lambda>(n, s, i, c, v, a).
            \<lparr>df_campaign_name = n, df_spend = s, df_impressions = i, df_clicks = c,
             df_conversions = v, df_sales = a\<rparr>)
         (zip ns (zip sp (zip im (zip cl (zip cv sa)))))"

text \<open>Lines 76 to 91: the columns are converted one after the other, in this order.\<close>

definition coerce_frame :: "pydict list \<Rightarrow> exc + df_row list" where
  "coerce_frame raw =
     ebind (df_column ''spend'' raw) (\<lambda>c_spend.
     ebind (df_column ''impressions'' raw) (\<lambda>c_imp.
     ebind (series_apply astype_int (map (fillna0 \<circ> to_numeric_coerce) c_imp)) (\<lambda>imps.
     ebind (df_column ''clicks'' raw) (\<lambda>c_clk.
     ebind (series_apply astype_int (map (fillna0 \<circ> to_numeric_coerce) c_clk)) (\<lambda>clks.
     ebind (df_column ''actions'' raw) (\<lambda>c_act.
     ebind (series_apply purchase_value c_act) (\<lambda>conv.
     ebind (series_apply astype_int conv) (\<lambda>convs.
     ebind (df_column ''action_values'' raw) (\<lambda>c_av.
     ebind (series_apply purchase_value c_av) (\<lambda>sales.
       Inr (make_rows (map (\<lambda>r. df_cell r ''campaign_name'') raw)
              (map (fillna0 \<circ> to_numeric_coerce) c_spend) imps clks convs sales)))))))))))"

section \<open>Campaign summary\<close>

datatype gkey = KNum pyfloat | KStr string

record group_row =
  campaign_name :: gkey
  spend :: pyfloat
  sales :: pyfloat
  impressions :: int
  clicks :: int
  conversions :: int

record campaign_row = group_row +
  roas :: pyfloat
  cpa :: pyfloat
  ctr :: pyfloat
  conversion_rate :: pyfloat

text \<open>
  Library behaviour of \<^verbatim>\<open>groupby\<close>: a list or dictionary cannot be a key (TypeError), rows
  whose key is null are dropped (\<^verbatim>\<open>dropna=True\<close>), equal numbers are one key whatever their
  type, and the groups come in ascending key order, numbers before strings.
\<close>

fun hashable :: "pyval \<Rightarrow> bool" where
  "hashable (VList xs) = False"
| "hashable (VDict d) = False"
| "hashable v = True"

fun group_key :: "pyval \<Rightarrow> gkey option" where
  "group_key (VStr s) = Some (KStr s)"
| "group_key (VInt n) = Some (KNum (Fin (of_int n)))"
| "group_key (VBool b) = Some (KNum (Fin (if b then 1 else 0)))"
| "group_key (VFloat x) = (if isnan x then None else Some (KNum x))"
| "group_key v = None"

fun key_rank :: "gkey \<Rightarrow> nat \<times> (int \<times> rat) \<times> string" where
  "key_rank (KStr s) = (1, (0, 0), s)"
| "key_rank (KNum (Fin r)) = (0, (0, r), [])"
| "key_rank (KNum NInf) = (0, (- 1, 0), [])"
| "key_rank (KNum PInf) = (0, (1, 0), [])"
| "key_rank (KNum NaN) = (0, (2, 0), [])"

definition group_rows :: "df_row list \<Rightarrow> gkey \<Rightarrow> df_row list" where
  "group_rows df k = filter (\<lambda>r. group_key (df_campaign_name r) = Some k) df"

definition group_keys :: "df_row list \<Rightarrow> gkey list" where
  "group_keys df =
     sort_key key_rank (remdups (List.map_filter (\<lambda>r. group_key (df_campaign_name r)) df))"

definition agg_sum :: "df_row list \<Rightarrow> gkey \<Rightarrow> group_row" where
  "agg_sum df k =
     (let g = group_rows df k in
      \<lparr>campaign_name = k,
       spend = series_sum (map df_spend g),
       sales = series_sum (map df_sales g),
       impressions = sum_list (map df_impressions g),
       clicks = sum_list (map df_clicks g),
       conversions = sum_list (map df_conversions g)\<rparr>)"

definition groupby_sum :: "pydict list \<Rightarrow> df_row list \<Rightarrow> exc + group_row list" where
  "groupby_sum raw df =
     (if \<not> has_column ''campaign_name'' raw then Inl KeyError
      else if list_ex (\<lambda>r. \<not> hashable (df_campaign_name r)) df then Inl TypeError
      else Inr (map (agg_sum df) (group_keys df)))"

definition int_div :: "int \<Rightarrow> int \<Rightarrow> pyfloat" where
  "int_div a b = fl_div (Fin (of_int a)) (Fin (of_int b))"

text \<open>Lines 116 to 119: divide, then replace the infinities and NaN by 0.\<close>

definition with_ratios :: "group_row \<Rightarrow> campaign_row" where
  "with_ratios g =
     \<lparr>campaign_name = campaign_name g, spend = spend g, sales = sales g,
      impressions = impressions g, clicks = clicks g, conversions = conversions g,
      roas = fillna0 (replace_inf (fl_div (sales g) (spend g))),
      cpa = fillna0 (replace_inf (fl_div (spend g) (Fin (of_int (conversions g))))),
      ctr = fillna0 (replace_inf (fl_mul (int_div (clicks g) (impressions g)) (Fin 100))),
      conversion_rate =
        fillna0 (replace_inf (fl_mul (int_div (conversions g) (clicks g)) (Fin 100)))\<rparr>"

section \<open>The aggregation\<close>

record metrics =
  total_sales :: pyfloat
  total_ad_spend :: pyfloat
  overall_roas :: pyfloat
  overall_cpa :: pyfloat
  overall_ctr :: pyfloat
  overall_conversion_rate :: pyfloat
  total_impressions :: int
  total_clicks :: int
  campaign_summary :: "campaign_row list"
  high_roas_campaigns :: "campaign_row list"
  active_campaigns :: "campaign_row list"

definition empty_metrics :: metrics where
  "empty_metrics =
     \<lparr>total_sales = Fin 0, total_ad_spend = Fin 0, overall_roas = Fin 0, overall_cpa = Fin 0,
      overall_ctr = Fin 0, overall_conversion_rate = Fin 0, total_impressions = 0,
      total_clicks = 0, campaign_summary = [], high_roas_campaigns = [],
      active_campaigns = []\<rparr>"

definition is_high_roas :: "campaign_row \<Rightarrow> bool" where
  "is_high_roas r = fl_gt (roas r) (Fin 1)"

definition is_active :: "campaign_row \<Rightarrow> bool" where
  "is_active r = (0 < impressions r \<or> 0 < clicks r \<or> 0 < conversions r)"

definition overall_roas_of :: "pyfloat \<Rightarrow> pyfloat \<Rightarrow> pyfloat" where
  "overall_roas_of t_sales t_spend =
     (if fl_gt t_spend (Fin 0) then fl_div t_sales t_spend else Fin 0)"

definition overall_cpa_of :: "pyfloat \<Rightarrow> int \<Rightarrow> pyfloat" where
  "overall_cpa_of t_spend t_conv =
     (if 0 < t_conv then fl_div t_spend (Fin (of_int t_conv)) else Fin 0)"

definition overall_ctr_of :: "int \<Rightarrow> int \<Rightarrow> pyfloat" where
  "overall_ctr_of t_clicks t_imp =
     (if 0 < t_imp then fl_mul (int_div t_clicks t_imp) (Fin 100) else Fin 0)"

definition overall_conversion_rate_of :: "int \<Rightarrow> int \<Rightarrow> pyfloat" where
  "overall_conversion_rate_of t_conv t_clicks =
     (if 0 < t_clicks then fl_mul (int_div t_conv t_clicks) (Fin 100) else Fin 0)"

text \<open>
  Lines 93 to 141. \<^verbatim>\<open>sort_values(by='roas', ascending=False)\<close> is the library's sort with
  its default algorithm; it is the parameter \<open>srt\<close>.
\<close>

definition summarize ::
  "(campaign_row list \<Rightarrow> campaign_row list) \<Rightarrow> pydict list \<Rightarrow> df_row list \<Rightarrow> exc + metrics"
  where
  "summarize srt raw df =
     (let t_spend = series_sum (map df_spend df);
          t_sales = series_sum (map df_sales df);
          t_imp = sum_list (map df_impressions df);
          t_clicks = sum_list (map df_clicks df);
          t_conv = sum_list (map df_conversions df)
      in ebind (groupby_sum raw df) (\<lambda>groups.
           let summary = map with_ratios groups in
           Inr \<lparr>total_sales = t_sales,
                total_ad_spend = t_spend,
                overall_roas = overall_roas_of t_sales t_spend,
                overall_cpa = overall_cpa_of t_spend t_conv,
                overall_ctr = overall_ctr_of t_clicks t_imp,
                overall_conversion_rate = overall_conversion_rate_of t_conv t_clicks,
                total_impressions = t_imp,
                total_clicks = t_clicks,
                campaign_summary = summary,
                high_roas_campaigns = filter is_high_roas summary,
                active_campaigns = srt (filter is_active summary)\<rparr>))"

text \<open>
  \<^verbatim>\<open>process_data\<close>. The log is the only state outside the result that the function
  touches: it is passed in and returned.
\<close>

definition process_data ::
  "(campaign_row list \<Rightarrow> campaign_row list) \<Rightarrow> pydict list \<Rightarrow> log_record list
     \<Rightarrow> (exc + metrics) \<times> log_record list" where
  "process_data srt raw lg =
     (if raw = [] then (Inr empty_metrics, lg @ [Warning ''No data returned from API''])
      else (ebind (coerce_frame raw) (summarize srt raw), lg))"

text \<open>
  What the library promises of the descending sort: the rows are kept, and they come out
  with \<open>roas\<close> non-increasing. The default algorithm (quicksort) is not stable, so the
  order of rows with equal \<open>roas\<close> is not part of the promise.
\<close>

definition roas_desc :: "campaign_row list \<Rightarrow> bool" where
  "roas_desc xs = sorted_wrt (\<lambda>a b. fl_ge (roas a) (roas b)) xs"

definition sorts_desc :: "(campaign_row list \<Rightarrow> campaign_row list) \<Rightarrow> bool" where
  "sorts_desc srt =
     (\<forall>xs. mset (srt xs) = mset xs \<and> (list_all (\<lambda>r. isfinite (roas r)) xs \<longrightarrow> roas_desc (srt xs)))"

text \<open>Two sorts that keep the promise: one stable, one that reverses ties.\<close>

fun insert_desc :: "campaign_row \<Rightarrow> campaign_row list \<Rightarrow> campaign_row list" where
  "insert_desc x [] = [x]"
| "insert_desc x (y # ys) =
     (if fl_ge (roas x) (roas y) then x # y # ys else y # insert_desc x ys)"

definition stable_sort_desc :: "campaign_row list \<Rightarrow> campaign_row list" where
  "stable_sort_desc xs = foldr insert_desc xs []"


section \<open>Example inputs\<close>

text \<open>Scenario B of the specification: one record with a purchase of 5 units worth 500.\<close>

definition scenario_b_record :: pydict where
  "scenario_b_record =
     [(''campaign_name'', VStr ''X''), (''spend'', VStr ''100''),
      (''impressions'', VStr ''1000''), (''clicks'', VStr ''50''),
      (''actions'',
         VList [VDict [(''action_type'', VStr ''purchase''), (''value'', VStr ''5'')]]),
      (''action_values'',
         VList [VDict [(''action_type'', VStr ''purchase''), (''value'', VStr ''500'')]])]"

definition scenario_b_row :: campaign_row where
  "scenario_b_row =
     \<lparr>campaign_name = KStr ''X'', spend = Fin 100, sales = Fin 500, impressions = 1000,
      clicks = 50, conversions = 5, roas = Fin 5, cpa = Fin 20, ctr = Fin 5,
      conversion_rate = Fin 10\<rparr>"

text \<open>
  Three records for two campaigns. The second record of campaign A has an unreadable
  spend, no impressions, an unreadable click count, a purchase behind another action
  and no \<^verbatim>\<open>action_values\<close> at all; campaign B has no purchase.
\<close>

definition example_record_b :: pydict where
  "example_record_b =
     [(''campaign_name'', VStr ''B''), (''spend'', VStr ''200''), (''impressions'', VInt 10),
      (''clicks'', VStr ''1''), (''actions'', VList []), (''action_values'', VNone)]"

definition example_record_a :: pydict where
  "example_record_a =
     [(''campaign_name'', VStr ''A''), (''spend'', VStr ''100''),
      (''impressions'', VStr ''1000''), (''clicks'', VStr ''50''),
      (''actions'',
         VList [VDict [(''action_type'', VStr ''purchase''), (''value'', VStr ''5'')]]),
      (''action_values'',
         VList [VDict [(''action_type'', VStr ''purchase''), (''value'', VStr ''500'')]])]"

definition example_record_a2 :: pydict where
  "example_record_a2 =
     [(''campaign_name'', VStr ''A''), (''spend'', VStr ''abc''), (''impressions'', VNone),
      (''clicks'', VStr ''n/a''),
      (''actions'',
         VList [VDict [(''action_type'', VStr ''link_click''), (''value'', VStr ''7'')],
                VDict [(''action_type'', VStr ''purchase''), (''value'', VStr ''3.9'')]])]"

definition example_raw :: "pydict list" where
  "example_raw = [example_record_b, example_record_a, example_record_a2]"

text \<open>Scenario B with an infinite purchase value.\<close>

definition infinite_sales_record :: pydict where
  "infinite_sales_record =
     [(''campaign_name'', VStr ''X''), (''spend'', VStr ''100''),
      (''impressions'', VStr ''1000''), (''clicks'', VStr ''50''),
      (''actions'',
         VList [VDict [(''action_type'', VStr ''purchase''), (''value'', VStr ''5'')]]),
      (''action_values'',
         VList [VDict [(''action_type'', VStr ''purchase''), (''value'', VStr ''inf'')]])]"


definition example_row_a :: campaign_row where
  "example_row_a =
     \<lparr>campaign_name = KStr ''A'', spend = Fin 100, sales = Fin 500, impressions = 1000,
      clicks = 50, conversions = 8, roas = Fin 5, cpa = Fin (25 / 2), ctr = Fin 5,
      conversion_rate = Fin 16\<rparr>"

definition example_row_b :: campaign_row where
  "example_row_b =
     \<lparr>campaign_name = KStr ''B'', spend = Fin 200, sales = Fin 0, impressions = 10,
      clicks = 1, conversions = 0, roas = Fin 0, cpa = Fin 0, ctr = Fin 10,
      conversion_rate = Fin 0\<rparr>"

definition example_metrics :: metrics where
  "example_metrics =
     \<lparr>total_sales = Fin 500, total_ad_spend = Fin 300, overall_roas = Fin (5 / 3),
      overall_cpa = Fin (75 / 2), overall_ctr = Fin (510 / 101),
      overall_conversion_rate = Fin (800 / 51), total_impressions = 1010,
      total_clicks = 51, campaign_summary = [example_row_a, example_row_b],
      high_roas_campaigns = [example_row_a],
      active_campaigns = [example_row_a, example_row_b]\<rparr>"

text \<open>
  Scenario C of the specification: one record with an unreadable spend and no impressions,
  clicks or purchases.
\<close>

definition scenario_c_record :: pydict where
  "scenario_c_record =
     [(''campaign_name'', VStr ''Z''), (''spend'', VStr ''abc''), (''impressions'', VInt 0),
      (''clicks'', VInt 0), (''actions'', VNone), (''action_values'', VNone)]"

definition scenario_c_raw :: "pydict list" where
  "scenario_c_raw = [scenario_c_record]"

definition scenario_c_frame :: "df_row list" where
  "scenario_c_frame =
     [\<lparr>df_campaign_name = VStr ''Z'', df_spend = Fin 0, df_impressions = 0, df_clicks = 0,
       df_conversions = 0, df_sales = Fin 0\<rparr>]"

definition scenario_c_row :: campaign_row where
  "scenario_c_row =
     \<lparr>campaign_name = KStr ''Z'', spend = Fin 0, sales = Fin 0, impressions = 0, clicks = 0,
      conversions = 0, roas = Fin 0, cpa = Fin 0, ctr = Fin 0, conversion_rate = Fin 0\<rparr>"

definition scenario_c_metrics :: metrics where
  "scenario_c_metrics =
     \<lparr>total_sales = Fin 0, total_ad_spend = Fin 0, overall_roas = Fin 0, overall_cpa = Fin 0,
      overall_ctr = Fin 0, overall_conversion_rate = Fin 0, total_impressions = 0,
      total_clicks = 0, campaign_summary = [scenario_c_row], high_roas_campaigns = [],
      active_campaigns = []\<rparr>"







text \<open>Scenario B with an action entry that has no action type.\<close>

definition untyped_action_record :: pydict where
  "untyped_action_record =
     [(''campaign_name'', VStr ''X''), (''spend'', VStr ''100''),
      (''impressions'', VStr ''1000''), (''clicks'', VStr ''50''),
      (''actions'', VList [VDict [(''value'', VStr ''3'')]]),
      (''action_values'',
         VList [VDict [(''action_type'', VStr ''purchase''), (''value'', VStr ''500'')]])]"




text \<open>Scenario B with a purchase whose value is not a number.\<close>

definition unreadable_value_record :: pydict where
  "unreadable_value_record =
     [(''campaign_name'', VStr ''X''), (''spend'', VStr ''100''),
      (''impressions'', VStr ''1000''), (''clicks'', VStr ''50''),
      (''actions'',
         VList [VDict [(''action_type'', VStr ''purchase''), (''value'', VStr ''abc'')]]),
      (''action_values'',
         VList [VDict [(''action_type'', VStr ''purchase''), (''value'', VStr ''500'')]])]"

text \<open>A record of a day without any action: the API leaves both lists out.\<close>

definition no_actions_record :: pydict where
  "no_actions_record =
     [(''campaign_name'', VStr ''X''), (''spend'', VStr ''100''),
      (''impressions'', VStr ''1000''), (''clicks'', VStr ''50'')]"

section \<open>Auxiliary notions\<close>

text \<open>A coerced row belongs to a record: each field is the conversion of the record's cell.\<close>

definition row_of :: "pydict \<Rightarrow> df_row \<Rightarrow> bool" where
  "row_of r d \<longleftrightarrow>
     df_campaign_name d = df_cell r ''campaign_name'' \<and>
     df_spend d = fillna0 (to_numeric_coerce (df_cell r ''spend'')) \<and>
     astype_int (fillna0 (to_numeric_coerce (df_cell r ''impressions''))) = Inr (df_impressions d) \<and>
     astype_int (fillna0 (to_numeric_coerce (df_cell r ''clicks''))) = Inr (df_clicks d) \<and>
     (\<exists>x. purchase_value (df_cell r ''actions'') = Inr x \<and> astype_int x = Inr (df_conversions d)) \<and>
     purchase_value (df_cell r ''action_values'') = Inr (df_sales d)"







text \<open>
  Inputs on which the aggregation returns. Every column occurs in some record; no
  impressions or clicks cell reads as an infinity; every entry of an action list is a
  dictionary with an action type and a value that \<^verbatim>\<open>float\<close> accepts (finite in
  \<^verbatim>\<open>actions\<close>, whose values are cast to integers); no campaign name is a list or a
  dictionary. Spend, impressions and clicks may be missing or unreadable, and the action
  lists may be missing or not lists.
\<close>

definition entry_ok :: "(pyfloat \<Rightarrow> bool) \<Rightarrow> pyval \<Rightarrow> bool" where
  "entry_ok P item =
     (case item of
        VDict d \<Rightarrow>
          map_of d ''action_type'' \<noteq> None \<and>
          (case map_of d ''value'' of
             None \<Rightarrow> False
           | Some v \<Rightarrow> (case py_float v of Inl e \<Rightarrow> False | Inr x \<Rightarrow> P x))
      | _ \<Rightarrow> False)"

definition entries_ok :: "(pyfloat \<Rightarrow> bool) \<Rightarrow> pyval \<Rightarrow> bool" where
  "entries_ok P c = (case c of VList items \<Rightarrow> list_all (entry_ok P) items | _ \<Rightarrow> True)"

definition not_infinite :: "pyfloat \<Rightarrow> bool" where
  "not_infinite x = (x \<noteq> PInf \<and> x \<noteq> NInf)"

definition record_ok :: "pydict \<Rightarrow> bool" where
  "record_ok r =
     (not_infinite (to_numeric_coerce (df_cell r ''impressions'')) \<and>
      not_infinite (to_numeric_coerce (df_cell r ''clicks'')) \<and>
      entries_ok isfinite (df_cell r ''actions'') \<and>
      entries_ok (\<lambda>x. True) (df_cell r ''action_values'') \<and>
      hashable (df_cell r ''campaign_name''))"

definition well_formed :: "pydict list \<Rightarrow> bool" where
  "well_formed raw =
     (list_all (\<lambda>k. has_column k raw)
        [''spend'', ''impressions'', ''clicks'', ''actions'', ''action_values'',
         ''campaign_name''] \<and>
      list_all record_ok raw)"



section \<open>The two sorts keep the library's promise\<close>

lemma mset_insert_desc: "mset (insert_desc x ys) = add_mset x (mset ys)"
  by (induction ys) simp_all

lemma mset_stable_sort_desc: "mset (stable_sort_desc xs) = mset xs"
  unfolding stable_sort_desc_def by (induction xs) (simp_all add: mset_insert_desc)

lemma set_insert_desc: "set (insert_desc x ys) = insert x (set ys)"
  using mset_insert_desc [of x ys] by (metis set_mset_add_mset_insert set_mset_mset)

lemma fl_ge_total: "isfinite a \<Longrightarrow> isfinite b \<Longrightarrow> fl_ge a b \<or> fl_ge b a"
  by (cases a; cases b) (auto simp: fl_ge_def isfinite_def)

lemma fl_ge_trans: "fl_ge a b \<Longrightarrow> fl_ge b c \<Longrightarrow> fl_ge a c"
  by (cases a; cases b; cases c) (auto simp: fl_ge_def)

lemma roas_desc_insert_desc:
  "isfinite (roas x) \<Longrightarrow> list_all (\<lambda>r. isfinite (roas r)) ys \<Longrightarrow> roas_desc ys
     \<Longrightarrow> roas_desc (insert_desc x ys)"
proof (induction ys)
  case Nil
  then show ?case by (simp add: roas_desc_def)
next
  case (Cons y ys)
  show ?case
  proof (cases "fl_ge (roas x) (roas y)")
    case True
    with Cons.prems show ?thesis
      by (auto simp: roas_desc_def intro: fl_ge_trans)
  next
    case False
    with Cons.prems have yx: "fl_ge (roas y) (roas x)"
      using fl_ge_total [of "roas x" "roas y"] by simp
    from Cons have "roas_desc (insert_desc x ys)" by (simp add: roas_desc_def)
    with False yx Cons.prems show ?thesis
      by (auto simp: roas_desc_def set_insert_desc)
  qed
qed

lemma roas_desc_stable_sort_desc:
  "list_all (\<lambda>r. isfinite (roas r)) xs \<Longrightarrow> roas_desc (stable_sort_desc xs)"
proof (induction xs)
  case Nil
  then show ?case by (simp add: stable_sort_desc_def roas_desc_def)
next
  case (Cons x xs)
  then have "roas_desc (foldr insert_desc xs [])"
    by (simp add: stable_sort_desc_def)
  moreover have "list_all (\<lambda>r. isfinite (roas r)) (foldr insert_desc xs [])"
    using Cons.prems mset_stable_sort_desc [of xs]
    by (metis list.pred_inject(2) list_all_iff mset_eq_setD stable_sort_desc_def)
  ultimately show ?case
    using Cons.prems by (simp add: stable_sort_desc_def roas_desc_insert_desc)
qed

lemma sorts_desc_stable: "sorts_desc stable_sort_desc"
  by (simp add: sorts_desc_def mset_stable_sort_desc roas_desc_stable_sort_desc)


lemma sorts_desc_mset: "sorts_desc srt \<Longrightarrow> mset (srt xs) = mset xs"
  by (simp add: sorts_desc_def)

lemma sorts_desc_set: "sorts_desc srt \<Longrightarrow> set (srt xs) = set xs"
  by (metis sorts_desc_mset mset_eq_setD)

lemma sorts_desc_single: "sorts_desc srt \<Longrightarrow> srt [x] = [x]"
  using sorts_desc_mset [of srt "[x]"] by simp

section \<open>Structure of a returning call\<close>

lemma series_apply_Inr_iff:
  "series_apply f xs = Inr ys \<longleftrightarrow> list_all2 (\<lambda>x y. f x = Inr y) xs ys"
proof (induction xs arbitrary: ys)
  case Nil
  then show ?case by auto
next
  case (Cons x xs)
  show ?case
    by (cases ys) (auto simp: Cons.IH [symmetric] split: sum.splits)
qed

lemma series_apply_total:
  "(\<And>x. x \<in> set xs \<Longrightarrow> \<exists>y. f x = Inr y) \<Longrightarrow> \<exists>ys. series_apply f xs = Inr ys"
proof (induction xs)
  case Nil
  then show ?case by simp
next
  case (Cons x xs)
  then obtain y ys where "f x = Inr y" "series_apply f xs = Inr ys"
    by (meson list.set_intros)
  then show ?case by simp
qed

lemma ebind_Inr_iff: "ebind m f = Inr y \<longleftrightarrow> (\<exists>v. m = Inr v \<and> f v = Inr y)"
  by (cases m) (simp_all add: ebind_def)

lemma df_column_Inr_iff:
  "df_column k raw = Inr c \<longleftrightarrow> has_column k raw \<and> c = map (\<lambda>r. df_cell r k) raw"
  by (auto simp: df_column_def)

lemma length_make_rows:
  "length (make_rows ns sp im cl cv sa) =
     min (length ns) (min (length sp) (min (length im) (min (length cl)
       (min (length cv) (length sa)))))"
  by (simp add: make_rows_def)

lemma nth_make_rows:
  assumes "i < length ns" "i < length sp" "i < length im" "i < length cl" "i < length cv"
    "i < length sa"
  shows "make_rows ns sp im cl cv sa ! i =
     \<lparr>df_campaign_name = ns ! i, df_spend = sp ! i, df_impressions = im ! i,
      df_clicks = cl ! i, df_conversions = cv ! i, df_sales = sa ! i\<rparr>"
  using assms by (simp add: make_rows_def)

lemma coerce_frame_rows:
  assumes "coerce_frame raw = Inr df"
  shows "list_all2 row_of raw df"
proof -
  from assms obtain imps clks conv convs sls where
    imps: "list_all2 (\<lambda>x y. astype_int x = Inr y)
             (map (fillna0 \<circ> to_numeric_coerce) (map (\<lambda>r. df_cell r ''impressions'') raw)) imps"
    and clks: "list_all2 (\<lambda>x y. astype_int x = Inr y)
             (map (fillna0 \<circ> to_numeric_coerce) (map (\<lambda>r. df_cell r ''clicks'') raw)) clks"
    and conv: "list_all2 (\<lambda>x y. purchase_value x = Inr y)
             (map (\<lambda>r. df_cell r ''actions'') raw) conv"
    and convs: "list_all2 (\<lambda>x y. astype_int x = Inr y) conv convs"
    and sls: "list_all2 (\<lambda>x y. purchase_value x = Inr y)
             (map (\<lambda>r. df_cell r ''action_values'') raw) sls"
    and df: "df = make_rows (map (\<lambda>r. df_cell r ''campaign_name'') raw)
              (map (fillna0 \<circ> to_numeric_coerce) (map (\<lambda>r. df_cell r ''spend'') raw))
              imps clks convs sls"
    unfolding coerce_frame_def ebind_Inr_iff df_column_Inr_iff series_apply_Inr_iff
    by auto
  have len: "length imps = length raw" "length clks = length raw" "length conv = length raw"
    "length convs = length raw" "length sls = length raw"
    using list_all2_lengthD [OF imps] list_all2_lengthD [OF clks] list_all2_lengthD [OF conv]
      list_all2_lengthD [OF convs] list_all2_lengthD [OF sls] by simp_all
  show ?thesis
  proof (rule list_all2_all_nthI)
    show "length raw = length df" by (simp add: df length_make_rows len)
  next
    fix i assume i: "i < length raw"
    have row: "df ! i =
       \<lparr>df_campaign_name = df_cell (raw ! i) ''campaign_name'',
        df_spend = fillna0 (to_numeric_coerce (df_cell (raw ! i) ''spend'')),
        df_impressions = imps ! i, df_clicks = clks ! i, df_conversions = convs ! i,
        df_sales = sls ! i\<rparr>"
      using i by (simp add: df nth_make_rows len)
    have "astype_int (fillna0 (to_numeric_coerce (df_cell (raw ! i) ''impressions''))) = Inr (imps ! i)"
      using list_all2_nthD [OF imps, of i] i by simp
    moreover have "astype_int (fillna0 (to_numeric_coerce (df_cell (raw ! i) ''clicks''))) = Inr (clks ! i)"
      using list_all2_nthD [OF clks, of i] i by simp
    moreover have "purchase_value (df_cell (raw ! i) ''actions'') = Inr (conv ! i)"
      using list_all2_nthD [OF conv, of i] i by simp
    moreover have "astype_int (conv ! i) = Inr (convs ! i)"
      using list_all2_nthD [OF convs, of i] i len by simp
    moreover have "purchase_value (df_cell (raw ! i) ''action_values'') = Inr (sls ! i)"
      using list_all2_nthD [OF sls, of i] i by simp
    ultimately show "row_of (raw ! i) (df ! i)"
      by (simp add: row_of_def row)
  qed
qed

lemma summarize_Inr:
  assumes "summarize srt raw df = Inr m"
  obtains groups where "groupby_sum raw df = Inr groups"
    "m = \<lparr>total_sales = series_sum (map df_sales df),
          total_ad_spend = series_sum (map df_spend df),
          overall_roas = overall_roas_of (series_sum (map df_sales df)) (series_sum (map df_spend df)),
          overall_cpa = overall_cpa_of (series_sum (map df_spend df)) (sum_list (map df_conversions df)),
          overall_ctr = overall_ctr_of (sum_list (map df_clicks df)) (sum_list (map df_impressions df)),
          overall_conversion_rate =
            overall_conversion_rate_of (sum_list (map df_conversions df)) (sum_list (map df_clicks df)),
          total_impressions = sum_list (map df_impressions df),
          total_clicks = sum_list (map df_clicks df),
          campaign_summary = map with_ratios groups,
          high_roas_campaigns = filter is_high_roas (map with_ratios groups),
          active_campaigns = srt (filter is_active (map with_ratios groups))\<rparr>"
  using assms unfolding summarize_def Let_def ebind_Inr_iff by auto

lemma process_data_Inr_cases:
  assumes "fst (process_data srt raw lg) = Inr m"
  obtains (empty) "raw = []" "m = empty_metrics"
  | (frame) df where "raw \<noteq> []" "coerce_frame raw = Inr df" "summarize srt raw df = Inr m"
  using assms by (auto simp: process_data_def ebind_Inr_iff split: if_splits)

section \<open>The example inputs, evaluated\<close>


lemma example_returns: "fst (process_data stable_sort_desc example_raw []) = Inr example_metrics"
  unfolding example_raw_def example_metrics_def example_row_a_def example_row_b_def
  by code_simp

lemma scenario_c_frame_eval: "coerce_frame scenario_c_raw = Inr scenario_c_frame"
  unfolding scenario_c_raw_def scenario_c_frame_def by code_simp

lemma scenario_c_returns:
  "fst (process_data stable_sort_desc scenario_c_raw []) = Inr scenario_c_metrics"
  unfolding scenario_c_raw_def scenario_c_metrics_def scenario_c_row_def by code_simp



section \<open>Safe division\<close>

lemma isfinite_scrub: "isfinite (fillna0 (replace_inf x))"
  by (cases x) (simp_all add: fillna0_def replace_inf_def isnan_def isfinite_def)

lemma scrub_div_zero: "fillna0 (replace_inf (fl_div x (Fin 0))) = Fin 0"
  by (cases x) (simp_all add: fillna0_def replace_inf_def isnan_def)

lemma scrub_mul_div_zero:
  "fillna0 (replace_inf (fl_mul (int_div a 0) (Fin 100))) = Fin 0"
  by (simp add: int_div_def fillna0_def replace_inf_def isnan_def)

lemma with_ratios_safe:
  "(spend g = Fin 0 \<longrightarrow> roas (with_ratios g) = Fin 0) \<and>
   (conversions g = 0 \<longrightarrow> cpa (with_ratios g) = Fin 0) \<and>
   (impressions g = 0 \<longrightarrow> ctr (with_ratios g) = Fin 0) \<and>
   (clicks g = 0 \<longrightarrow> conversion_rate (with_ratios g) = Fin 0) \<and>
   isfinite (roas (with_ratios g)) \<and> isfinite (cpa (with_ratios g)) \<and>
   isfinite (ctr (with_ratios g)) \<and> isfinite (conversion_rate (with_ratios g))"
  by (simp add: with_ratios_def isfinite_scrub scrub_div_zero scrub_mul_div_zero)

lemma with_ratios_fields [simp]:
  "campaign_name (with_ratios g) = campaign_name g" "spend (with_ratios g) = spend g"
  "sales (with_ratios g) = sales g" "impressions (with_ratios g) = impressions g"
  "clicks (with_ratios g) = clicks g" "conversions (with_ratios g) = conversions g"
  by (simp_all add: with_ratios_def)

lemma isfinite_int_ratio: "0 < b \<Longrightarrow> isfinite (fl_mul (int_div a b) (Fin 100))"
  by (simp add: int_div_def isfinite_def)

lemma overall_safe:
  "overall_roas_of s (Fin 0) = Fin 0" "overall_cpa_of p 0 = Fin 0"
  "overall_ctr_of c 0 = Fin 0" "overall_conversion_rate_of v 0 = Fin 0"
  "isfinite (overall_ctr_of c i)" "isfinite (overall_conversion_rate_of v c)"
  "isfinite s \<Longrightarrow> isfinite (overall_roas_of s p)"
  "isfinite p \<Longrightarrow> isfinite (overall_cpa_of p v)"
       apply (simp_all add: overall_roas_of_def overall_cpa_of_def overall_ctr_of_def
      overall_conversion_rate_of_def isfinite_int_ratio)
     apply (simp_all add: isfinite_def)
   apply (cases s; cases p; simp)
  apply (cases p; simp)
  done

section \<open>Order of the campaign table\<close>






lemma campaign_name_agg_sum [simp]: "campaign_name (agg_sum df k) = k"
  by (simp add: agg_sum_def Let_def)





section \<open>Coercion of the cells\<close>






lemma astype_int_total:
  "x \<noteq> PInf \<Longrightarrow> x \<noteq> NInf \<Longrightarrow> \<exists>n. astype_int (fillna0 x) = Inr n"
  by (cases x) (simp_all add: fillna0_def isnan_def)




section \<open>Sums over groups\<close>






lemma coerce_frame_set:
  assumes "coerce_frame raw = Inr df" and "d \<in> set df"
  obtains r where "r \<in> set raw" "row_of r d"
  using coerce_frame_rows [OF assms(1)] assms(2)
  by (metis in_set_conv_nth list_all2_conv_all_nth)




section \<open>Inputs on which the call returns\<close>

lemma first_purchase_total:
  "list_all (entry_ok P) items \<Longrightarrow> \<exists>x. first_purchase items = Inr x \<and> (x = Fin 0 \<or> P x)"
proof (induction items)
  case Nil
  then show ?case by simp
next
  case (Cons item rest)
  then show ?case
    by (cases item)
      (auto simp: entry_ok_def ebind_def split: option.splits sum.splits)
qed

lemma purchase_value_total:
  "entries_ok P c \<Longrightarrow> \<exists>x. purchase_value c = Inr x \<and> (x = Fin 0 \<or> P x)"
  by (cases c) (simp_all add: entries_ok_def first_purchase_total)

lemma astype_int_finite: "isfinite x \<Longrightarrow> \<exists>n. astype_int x = Inr n"
  by (cases x) (simp_all add: isfinite_def)

lemma coerce_frame_total:
  assumes "well_formed raw"
  shows "\<exists>df. coerce_frame raw = Inr df"
proof -
  from assms have cols: "has_column ''spend'' raw" "has_column ''impressions'' raw"
    "has_column ''clicks'' raw" "has_column ''actions'' raw" "has_column ''action_values'' raw"
    and ok: "\<And>r. r \<in> set raw \<Longrightarrow> record_ok r"
    by (simp_all add: well_formed_def list_all_iff)
  have "\<exists>n. astype_int x = Inr n"
    if "x \<in> set (map (fillna0 \<circ> to_numeric_coerce) (map (\<lambda>r. df_cell r ''impressions'') raw))"
    for x
  proof -
    from that obtain r where "r \<in> set raw"
      "x = fillna0 (to_numeric_coerce (df_cell r ''impressions''))"
      by auto
    with ok [of r] show ?thesis
      by (simp add: record_ok_def not_infinite_def astype_int_total)
  qed
  then obtain imps where imps: "series_apply astype_int
      (map (fillna0 \<circ> to_numeric_coerce) (map (\<lambda>r. df_cell r ''impressions'') raw)) = Inr imps"
    using series_apply_total [of _ astype_int] by blast
  have "\<exists>n. astype_int x = Inr n"
    if "x \<in> set (map (fillna0 \<circ> to_numeric_coerce) (map (\<lambda>r. df_cell r ''clicks'') raw))"
    for x
  proof -
    from that obtain r where "r \<in> set raw"
      "x = fillna0 (to_numeric_coerce (df_cell r ''clicks''))"
      by auto
    with ok [of r] show ?thesis
      by (simp add: record_ok_def not_infinite_def astype_int_total)
  qed
  then obtain clks where clks: "series_apply astype_int
      (map (fillna0 \<circ> to_numeric_coerce) (map (\<lambda>r. df_cell r ''clicks'') raw)) = Inr clks"
    using series_apply_total [of _ astype_int] by blast
  have "\<exists>x. purchase_value c = Inr x" if "c \<in> set (map (\<lambda>r. df_cell r ''actions'') raw)" for c
    using that ok purchase_value_total [of isfinite c] by (auto simp: record_ok_def)
  then obtain conv where conv:
    "series_apply purchase_value (map (\<lambda>r. df_cell r ''actions'') raw) = Inr conv"
    using series_apply_total [of _ purchase_value] by blast
  have "isfinite x" if "x \<in> set conv" for x
  proof -
    let ?cells = "map (\<lambda>r. df_cell r ''actions'') raw"
    from conv have la: "list_all2 (\<lambda>c y. purchase_value c = Inr y) ?cells conv"
      by (simp only: series_apply_Inr_iff)
    from that obtain i where i: "i < length conv" "conv ! i = x"
      by (auto simp: in_set_conv_nth)
    have len: "length ?cells = length conv"
      using la by (rule list_all2_lengthD)
    define c where "c = ?cells ! i"
    have "c \<in> set ?cells"
      unfolding c_def using i(1) len by (intro nth_mem) simp
    moreover have "purchase_value c = Inr x"
      unfolding c_def using list_all2_nthD2 [OF la i(1)] i(2) by simp
    ultimately have "c \<in> set (map (\<lambda>r. df_cell r ''actions'') raw)"
      "purchase_value c = Inr x"
      by simp_all
    then show ?thesis
      using ok purchase_value_total [of isfinite c] by (auto simp: record_ok_def isfinite_def)
  qed
  then obtain convs where convs: "series_apply astype_int conv = Inr convs"
    using series_apply_total [of conv astype_int] astype_int_finite by blast
  have "\<exists>x. purchase_value c = Inr x"
    if "c \<in> set (map (\<lambda>r. df_cell r ''action_values'') raw)" for c
    using that ok purchase_value_total [of "\<lambda>x. True" c] by (auto simp: record_ok_def)
  then obtain sls where sls:
    "series_apply purchase_value (map (\<lambda>r. df_cell r ''action_values'') raw) = Inr sls"
    using series_apply_total [of _ purchase_value] by blast
  show ?thesis
    using imps clks
    by (simp add: coerce_frame_def ebind_def df_column_def cols conv convs sls)
qed

lemma groupby_sum_total:
  assumes "well_formed raw" and "coerce_frame raw = Inr df"
  shows "\<exists>groups. groupby_sum raw df = Inr groups"
proof -
  have "hashable (df_campaign_name d)" if "d \<in> set df" for d
  proof -
    from assms(2) that obtain r where "r \<in> set raw" "row_of r d"
      by (rule coerce_frame_set)
    with assms(1) show ?thesis
      by (simp add: well_formed_def list_all_iff record_ok_def row_of_def)
  qed
  then have "\<not> list_ex (\<lambda>r. \<not> hashable (df_campaign_name r)) df"
    by (simp add: list_ex_iff)
  with assms(1) show ?thesis
    by (simp add: groupby_sum_def well_formed_def)
qed

lemma example_well_formed: "well_formed example_raw"
  unfolding example_raw_def by code_simp

text \<open>A column that no record has: \<^verbatim>\<open>df['actions']\<close> raises KeyError.\<close>

lemma no_actions_column_raises:
  "fst (process_data stable_sort_desc [no_actions_record] []) = Inl KeyError"
  unfolding no_actions_record_def by code_simp

section \<open>Exceptions\<close>

text \<open>
  Claim C1, amended. The call returns a result, and raises no exception, for the empty
  sequence and for every sequence of records that is well formed: each of the six
  columns occurs in at least one record, no impressions or clicks cell reads as an
  infinity, every entry of an \<^verbatim>\<open>actions\<close> or \<^verbatim>\<open>action_values\<close> list is a dictionary with an
  action type and a value that reads as a number (a finite one in \<^verbatim>\<open>actions\<close>), and no
  campaign name is a list or a dictionary. Missing or unreadable spend, impressions and
  clicks, and action lists that are missing or not lists, are allowed and count as 0.
\<close>

theorem returns_on_well_formed:
  assumes "raw = [] \<or> well_formed raw"
  shows "\<exists>m. fst (process_data srt raw lg) = Inr m"
proof (cases "raw = []")
  case True
  then show ?thesis by (simp add: process_data_def)
next
  case False
  with assms have wf: "well_formed raw" by simp
  then obtain df where df: "coerce_frame raw = Inr df"
    using coerce_frame_total by blast
  with wf obtain groups where "groupby_sum raw df = Inr groups"
    using groupby_sum_total by blast
  with df False show ?thesis
    by (simp add: process_data_def ebind_def summarize_def Let_def)
qed

theorem returns_on_well_formed_witness:
  "well_formed example_raw \<and>
   (\<exists>m. fst (process_data stable_sort_desc example_raw []) = Inr m) \<and>
   (\<exists>m. fst (process_data stable_sort_desc [] []) = Inr m)"
  using returns_on_well_formed [of example_raw stable_sort_desc "[]"]
    returns_on_well_formed [of "[]" stable_sort_desc "[]"] example_well_formed
  by blast

text \<open>
  Claim C1 as stated fails: a purchase entry with an unreadable value raises ValueError
  and an entry without action type raises KeyError.
\<close>

theorem malformed_input_raises:
  "fst (process_data stable_sort_desc [unreadable_value_record] []) = Inl ValueError \<and>
   fst (process_data stable_sort_desc [untyped_action_record] []) = Inl KeyError"
proof -
  have "fst (process_data stable_sort_desc [unreadable_value_record] []) = Inl ValueError"
    unfolding unreadable_value_record_def by code_simp
  moreover have "fst (process_data stable_sort_desc [untyped_action_record] []) = Inl KeyError"
    unfolding untyped_action_record_def by code_simp
  ultimately show ?thesis by blast
qed

section \<open>Ratios\<close>

text \<open>
  Claim C2, amended. Whenever the call returns: each of the four ratios of every campaign
  row is 0 when its denominator (spend, conversions, impressions, clicks) is 0, and is
  finite, never an infinity or NaN; each of the four overall ratios is 0 when its
  denominator (total spend, total conversions, total impressions, total clicks) is 0;
  the overall click-through rate and conversion rate are finite; the overall roas is
  finite when the total sales are, and the overall cpa is finite when the total spend is.
\<close>

theorem ratios_safe:
  assumes "fst (process_data srt raw lg) = Inr m"
  shows "(\<forall>r\<in>set (campaign_summary m).
            (spend r = Fin 0 \<longrightarrow> roas r = Fin 0) \<and>
            (conversions r = 0 \<longrightarrow> cpa r = Fin 0) \<and>
            (impressions r = 0 \<longrightarrow> ctr r = Fin 0) \<and>
            (clicks r = 0 \<longrightarrow> conversion_rate r = Fin 0) \<and>
            isfinite (roas r) \<and> isfinite (cpa r) \<and> isfinite (ctr r) \<and>
            isfinite (conversion_rate r)) \<and>
         (total_ad_spend m = Fin 0 \<longrightarrow> overall_roas m = Fin 0) \<and>
         (\<forall>df. coerce_frame raw = Inr df \<longrightarrow> sum_list (map df_conversions df) = 0
               \<longrightarrow> overall_cpa m = Fin 0) \<and>
         (total_impressions m = 0 \<longrightarrow> overall_ctr m = Fin 0) \<and>
         (total_clicks m = 0 \<longrightarrow> overall_conversion_rate m = Fin 0) \<and>
         isfinite (overall_ctr m) \<and> isfinite (overall_conversion_rate m) \<and>
         (isfinite (total_sales m) \<longrightarrow> isfinite (overall_roas m)) \<and>
         (isfinite (total_ad_spend m) \<longrightarrow> isfinite (overall_cpa m))"
  using assms
proof (cases rule: process_data_Inr_cases)
  case empty
  then show ?thesis
    by (simp add: empty_metrics_def isfinite_def coerce_frame_def df_column_def has_column_def
        ebind_def)
next
  case (frame df)
  from frame(3) obtain groups where m: "m = \<lparr>total_sales = series_sum (map df_sales df),
          total_ad_spend = series_sum (map df_spend df),
          overall_roas = overall_roas_of (series_sum (map df_sales df)) (series_sum (map df_spend df)),
          overall_cpa = overall_cpa_of (series_sum (map df_spend df)) (sum_list (map df_conversions df)),
          overall_ctr = overall_ctr_of (sum_list (map df_clicks df)) (sum_list (map df_impressions df)),
          overall_conversion_rate =
            overall_conversion_rate_of (sum_list (map df_conversions df)) (sum_list (map df_clicks df)),
          total_impressions = sum_list (map df_impressions df),
          total_clicks = sum_list (map df_clicks df),
          campaign_summary = map with_ratios groups,
          high_roas_campaigns = filter is_high_roas (map with_ratios groups),
          active_campaigns = srt (filter is_active (map with_ratios groups))\<rparr>"
    by (rule summarize_Inr)
  show ?thesis
    using frame(2) with_ratios_safe by (simp add: m overall_safe)
qed

theorem ratios_safe_witness:
  "fst (process_data stable_sort_desc scenario_c_raw []) = Inr scenario_c_metrics \<and>
   coerce_frame scenario_c_raw = Inr scenario_c_frame \<and>
   scenario_c_row \<in> set (campaign_summary scenario_c_metrics) \<and>
   spend scenario_c_row = Fin 0 \<and> roas scenario_c_row = Fin 0 \<and>
   conversions scenario_c_row = 0 \<and> cpa scenario_c_row = Fin 0 \<and>
   impressions scenario_c_row = 0 \<and> ctr scenario_c_row = Fin 0 \<and>
   clicks scenario_c_row = 0 \<and> conversion_rate scenario_c_row = Fin 0 \<and>
   total_ad_spend scenario_c_metrics = Fin 0 \<and> overall_roas scenario_c_metrics = Fin 0 \<and>
   sum_list (map df_conversions scenario_c_frame) = 0 \<and>
   overall_cpa scenario_c_metrics = Fin 0 \<and>
   total_impressions scenario_c_metrics = 0 \<and> overall_ctr scenario_c_metrics = Fin 0 \<and>
   total_clicks scenario_c_metrics = 0 \<and> overall_conversion_rate scenario_c_metrics = Fin 0 \<and>
   isfinite (total_sales scenario_c_metrics) \<and> isfinite (overall_roas scenario_c_metrics) \<and>
   isfinite (total_ad_spend scenario_c_metrics) \<and> isfinite (overall_cpa scenario_c_metrics)"
proof -
  have row: "scenario_c_row \<in> set (campaign_summary scenario_c_metrics)"
    by (simp add: scenario_c_metrics_def)
  have zero: "spend scenario_c_row = Fin 0" "conversions scenario_c_row = 0"
    "impressions scenario_c_row = 0" "clicks scenario_c_row = 0"
    by (simp_all add: scenario_c_row_def)
  have tot: "total_ad_spend scenario_c_metrics = Fin 0" "total_impressions scenario_c_metrics = 0"
    "total_clicks scenario_c_metrics = 0" "isfinite (total_sales scenario_c_metrics)"
    "isfinite (total_ad_spend scenario_c_metrics)"
    "sum_list (map df_conversions scenario_c_frame) = 0"
    by (simp_all add: scenario_c_metrics_def scenario_c_frame_def isfinite_def)
  show ?thesis
    using ratios_safe [OF scenario_c_returns] scenario_c_returns scenario_c_frame_eval
      row zero tot by blast
qed

text \<open>
  Claim C2 as stated fails at the overall level: a purchase value that reads as infinity
  (\<^verbatim>\<open>float("inf")\<close>) gives infinite total sales, the guard \<^verbatim>\<open>total_ad_spend > 0\<close> holds,
  and the overall roas is infinite. Only the campaign rows are cleaned of infinities.
\<close>

theorem overall_roas_infinite:
  "map_sum id overall_roas (fst (process_data stable_sort_desc [infinite_sales_record] []))
     = Inr PInf"
  unfolding infinite_sales_record_def by code_simp

section \<open>Purchase extraction\<close>




section \<open>Empty input\<close>

text \<open>
  Claim C4. On the empty sequence of records \<open>process_data\<close> returns, without building a
  frame or grouping, the result whose eight overall totals and ratios are 0 and whose
  campaign table and two views are empty.
\<close>

theorem process_data_empty_input:
  "fst (process_data srt [] lg) =
     Inr \<lparr>total_sales = Fin 0, total_ad_spend = Fin 0, overall_roas = Fin 0,
          overall_cpa = Fin 0, overall_ctr = Fin 0, overall_conversion_rate = Fin 0,
          total_impressions = 0, total_clicks = 0, campaign_summary = [],
          high_roas_campaigns = [], active_campaigns = []\<rparr>"
  by (simp add: process_data_def empty_metrics_def)

section \<open>Consistency of the spend\<close>




section \<open>Views\<close>

text \<open>
  Claim C6. Whenever the call returns: the high-roas view is exactly the rows of the
  campaign table with roas above 1, in table order; every row of the active view has
  impressions, clicks or conversions above 0; every such row of the table is in the active
  view, each as often as in the table; and the active view is ordered by non-increasing
  roas. The library's sort is any function that keeps its rows and returns them in
  non-increasing roas order.
\<close>

theorem views_of_summary:
  assumes "sorts_desc srt" and "fst (process_data srt raw lg) = Inr m"
  shows "high_roas_campaigns m = filter (\<lambda>r. fl_gt (roas r) (Fin 1)) (campaign_summary m) \<and>
         (\<forall>r\<in>set (active_campaigns m). 0 < impressions r \<or> 0 < clicks r \<or> 0 < conversions r) \<and>
         (\<forall>r\<in>set (campaign_summary m).
             0 < impressions r \<or> 0 < clicks r \<or> 0 < conversions r
               \<longrightarrow> r \<in> set (active_campaigns m)) \<and>
         mset (active_campaigns m) =
           mset (filter (\<lambda>r. 0 < impressions r \<or> 0 < clicks r \<or> 0 < conversions r)
                        (campaign_summary m)) \<and>
         sorted_wrt (\<lambda>a b. fl_ge (roas a) (roas b)) (active_campaigns m)"
  using assms(2)
proof (cases rule: process_data_Inr_cases)
  case empty
  then show ?thesis by (simp add: empty_metrics_def)
next
  case (frame df)
  from frame(3) obtain groups where
    cs: "campaign_summary m = map with_ratios groups" and
    hr: "high_roas_campaigns m = filter is_high_roas (map with_ratios groups)" and
    ac: "active_campaigns m = srt (filter is_active (map with_ratios groups))"
    by (rule summarize_Inr) simp
  have fin: "list_all (\<lambda>r. isfinite (roas r)) (filter is_active (map with_ratios groups))"
    using with_ratios_safe by (auto simp: list_all_iff)
  have act: "is_active = (\<lambda>r. 0 < impressions r \<or> 0 < clicks r \<or> 0 < conversions r)"
    by (rule ext) (simp add: is_active_def)
  have hi: "is_high_roas = (\<lambda>r. fl_gt (roas r) (Fin 1))"
    by (rule ext) (simp add: is_high_roas_def)
  have "roas_desc (active_campaigns m)"
    using assms(1) fin unfolding ac sorts_desc_def by blast
  moreover have "mset (active_campaigns m) = mset (filter is_active (campaign_summary m))"
    by (simp add: ac cs sorts_desc_mset [OF assms(1)])
  moreover then have "set (active_campaigns m) = set (filter is_active (campaign_summary m))"
    by (rule mset_eq_setD)
  ultimately show ?thesis
    unfolding roas_desc_def by (simp add: hr cs hi act [symmetric]) (auto simp: act)
qed

theorem views_of_summary_witness:
  "sorts_desc stable_sort_desc \<and>
   fst (process_data stable_sort_desc example_raw []) = Inr example_metrics \<and>
   high_roas_campaigns example_metrics =
     filter (\<lambda>r. fl_gt (roas r) (Fin 1)) (campaign_summary example_metrics) \<and>
   list_all (\<lambda>r. 0 < impressions r \<or> 0 < clicks r \<or> 0 < conversions r)
     (active_campaigns example_metrics) \<and>
   example_row_b \<in> set (campaign_summary example_metrics) \<and>
   0 < impressions example_row_b \<and>
   example_row_b \<in> set (active_campaigns example_metrics) \<and>
   mset (active_campaigns example_metrics) =
     mset (filter (\<lambda>r. 0 < impressions r \<or> 0 < clicks r \<or> 0 < conversions r)
                  (campaign_summary example_metrics)) \<and>
   sorted_wrt (\<lambda>a b. fl_ge (roas a) (roas b)) (active_campaigns example_metrics)"
proof -
  have row: "example_row_b \<in> set (campaign_summary example_metrics)"
    by (simp add: example_metrics_def)
  have pos: "0 < impressions example_row_b"
    by (simp add: example_row_b_def)
  show ?thesis
    using views_of_summary [OF sorts_desc_stable example_returns] sorts_desc_stable
      example_returns row pos unfolding list_all_iff by blast
qed

section \<open>Coerced fields\<close>




section \<open>Scenario B\<close>

lemma scenario_b_frame:
  "coerce_frame [scenario_b_record] =
     Inr [\<lparr>df_campaign_name = VStr ''X'', df_spend = Fin 100, df_impressions = 1000,
           df_clicks = 50, df_conversions = 5, df_sales = Fin 500\<rparr>]"
  unfolding scenario_b_record_def by code_simp

lemma scenario_b_groups:
  "groupby_sum [scenario_b_record]
     [\<lparr>df_campaign_name = VStr ''X'', df_spend = Fin 100, df_impressions = 1000,
       df_clicks = 50, df_conversions = 5, df_sales = Fin 500\<rparr>] =
   Inr [\<lparr>campaign_name = KStr ''X'', spend = Fin 100, sales = Fin 500, impressions = 1000,
         clicks = 50, conversions = 5\<rparr>]"
  unfolding scenario_b_record_def by code_simp

lemma scenario_b_ratios:
  "with_ratios \<lparr>campaign_name = KStr ''X'', spend = Fin 100, sales = Fin 500,
      impressions = 1000, clicks = 50, conversions = 5\<rparr> = scenario_b_row"
  unfolding scenario_b_row_def by code_simp

text \<open>
  Claim C8. For the single record of scenario B (campaign X, spend "100", impressions
  "1000", clicks "50", a purchase action of "5" and a purchase value of "500") the result
  has campaign X with spend 100, sales 500, conversions 5, roas 5, cpa 20, ctr 5 and
  conversion rate 10; the overall totals and ratios are the same values; and the row of X
  is in the high-roas view and in the active view.
\<close>

theorem scenario_b:
  assumes "sorts_desc srt"
  shows "fst (process_data srt [scenario_b_record] lg) =
     Inr \<lparr>total_sales = Fin 500, total_ad_spend = Fin 100, overall_roas = Fin 5,
          overall_cpa = Fin 20, overall_ctr = Fin 5, overall_conversion_rate = Fin 10,
          total_impressions = 1000, total_clicks = 50,
          campaign_summary = [scenario_b_row],
          high_roas_campaigns = [scenario_b_row],
          active_campaigns = [scenario_b_row]\<rparr>"
proof -
  have hi: "is_high_roas scenario_b_row"
    by (simp add: is_high_roas_def scenario_b_row_def)
  have ac: "is_active scenario_b_row"
    by (simp add: is_active_def scenario_b_row_def)
  have s1: "series_sum [Fin 100] = Fin 100" "series_sum [Fin 500] = Fin 500"
    by code_simp+
  have o: "overall_roas_of (Fin 500) (Fin 100) = Fin 5" "overall_cpa_of (Fin 100) 5 = Fin 20"
    "overall_ctr_of 50 1000 = Fin 5" "overall_conversion_rate_of 5 50 = Fin 10"
    by code_simp+
  show ?thesis
    by (simp add: process_data_def ebind_def scenario_b_frame summarize_def scenario_b_groups
        scenario_b_ratios hi ac s1 o sorts_desc_single [OF assms] Let_def)
qed

theorem scenario_b_witness:
  "sorts_desc stable_sort_desc \<and>
   fst (process_data stable_sort_desc [scenario_b_record] []) =
     Inr \<lparr>total_sales = Fin 500, total_ad_spend = Fin 100, overall_roas = Fin 5,
          overall_cpa = Fin 20, overall_ctr = Fin 5, overall_conversion_rate = Fin 10,
          total_impressions = 1000, total_clicks = 50,
          campaign_summary = [scenario_b_row],
          high_roas_campaigns = [scenario_b_row],
          active_campaigns = [scenario_b_row]\<rparr>"
  using scenario_b [OF sorts_desc_stable, of "[]"] sorts_desc_stable by simp

section \<open>Determinism and effects\<close>



section \<open>Order of the table and of the views\<close>




end
